theory Spec2Isabelle
  imports Complex_Main
begin

section \<open>Live microphone spectrum display: a model of \<^verbatim>\<open>plot.py\<close>\<close>

text \<open>
  The development follows \<^verbatim>\<open>src/pklaus/audio/spectrum/plot.py\<close>: the decibel
  slider (\<^verbatim>\<open>DecibelSlider\<close>), the capture component (\<^verbatim>\<open>MicrophoneRecorder\<close>)
  and the per-tick handler (\<^verbatim>\<open>LiveFFTWidget.handleNewData\<close>).

  Numbers. Finite floating-point values are idealised as exact reals: rounding error
  and overflow of finite arithmetic are not modelled. The special values of IEEE
  arithmetic (the infinities and NaN), which the code can reach by dividing by a
  zero maximum, are kept as values of their own.
\<close>

subsection \<open>Exceptions\<close>

datatype py_error = RuntimeError | ValueError | ZeroDivisionError | OverflowError

subsection \<open>MicrophoneRecorder\<close>

text \<open>A chunk is one flat block of mono samples (\<^verbatim>\<open>data.reshape((len(data)))\<close>).\<close>

type_synonym chunk = "real list"

text \<open>
  The life cycle of the \<^verbatim>\<open>threading.Thread\<close> object held in \<^verbatim>\<open>self.t\<close>:
  created in \<^verbatim>\<open>__init__\<close>, made alive by \<^verbatim>\<open>start()\<close>, finished once
  \<^verbatim>\<open>capture_frames\<close> has returned.
\<close>

datatype thread_state = Unstarted | Alive | Finished

record MicrophoneRecorder =
  rate :: nat
  chunksize :: nat
  stop :: bool
  frames :: "chunk list"
  t :: thread_state

text \<open>\<^verbatim>\<open>__init__\<close>: the thread object is created, not started.\<close>

definition MicrophoneRecorder_init :: "nat \<Rightarrow> nat \<Rightarrow> MicrophoneRecorder" where
  "MicrophoneRecorder_init r c =
     \<lparr>rate = r, chunksize = c, stop = False, frames = [], t = Unstarted\<rparr>"

text \<open>
  The body of the capture loop after a block has been read:
  \<^verbatim>\<open>with self.lock: self.frames.append(data)\<close>.
\<close>

definition capture_append :: "MicrophoneRecorder \<Rightarrow> chunk \<Rightarrow> MicrophoneRecorder" where
  "capture_append m data = m\<lparr>frames := frames m @ [data]\<rparr>"

text \<open>
  \<^verbatim>\<open>get_frames\<close>: under the lock, hand out the current list and replace it by a
  fresh empty one. The result is the returned list and the recorder afterwards.
\<close>

definition get_frames :: "MicrophoneRecorder \<Rightarrow> chunk list \<times> MicrophoneRecorder" where
  "get_frames m = (frames m, m\<lparr>frames := []\<rparr>)"

text \<open>
  \<^verbatim>\<open>Thread.start\<close> raises \<^verbatim>\<open>RuntimeError\<close> when the thread was started before;
  \<^verbatim>\<open>Thread.join\<close> raises \<^verbatim>\<open>RuntimeError\<close> ("cannot join thread before it is
  started") on a thread that was never started, waits for an alive thread and returns
  at once on a finished one.
\<close>

definition start :: "MicrophoneRecorder \<Rightarrow> py_error + MicrophoneRecorder" where
  "start m = (case t m of Unstarted \<Rightarrow> Inr (m\<lparr>t := Alive\<rparr>) | _ \<Rightarrow> Inl RuntimeError)"

text \<open>
  \<^verbatim>\<open>close\<close>: set the stop flag, then join. While \<^verbatim>\<open>close\<close> waits for an alive
  thread, the capture loop finishes the iteration it is in: it appends the block it
  was reading, if any (\<open>inflight\<close>), sees the flag and leaves the loop.
\<close>

definition close :: "MicrophoneRecorder \<Rightarrow> chunk option \<Rightarrow> py_error + MicrophoneRecorder" where
  "close m inflight =
     (let m1 = m\<lparr>stop := True\<rparr> in
      case t m1 of
        Unstarted \<Rightarrow> Inl RuntimeError
      | Alive \<Rightarrow> Inr ((case inflight of None \<Rightarrow> m1 | Some data \<Rightarrow> capture_append m1 data)\<lparr>t := Finished\<rparr>)
      | Finished \<Rightarrow> Inr m1)"

subsection \<open>Float values\<close>

text \<open>
  A Python or numpy float: a finite value (an exact real here) or one of the IEEE
  special values. Signed zeros are not distinguished; the only zero the code divides
  by is the maximum of absolute values, which is \<open>+0.0\<close>.
\<close>

datatype pyfloat = Fin real | PInf | NInf | NaN

text \<open>The sign of a float value, and the infinity of a given sign (NaN for sign 0).\<close>

fun sgn_of :: "pyfloat \<Rightarrow> real" where
  "sgn_of (Fin a) = sgn a"
| "sgn_of PInf = 1"
| "sgn_of NInf = - 1"
| "sgn_of NaN = 0"

definition inf_signed :: "real \<Rightarrow> pyfloat" where
  "inf_signed s = (if 0 < s then PInf else if s < 0 then NInf else NaN)"

fun fneg :: "pyfloat \<Rightarrow> pyfloat" where
  "fneg (Fin a) = Fin (- a)"
| "fneg PInf = NInf"
| "fneg NInf = PInf"
| "fneg NaN = NaN"

fun fadd :: "pyfloat \<Rightarrow> pyfloat \<Rightarrow> pyfloat" where
  "fadd (Fin a) (Fin b) = Fin (a + b)"
| "fadd NaN _ = NaN"
| "fadd _ NaN = NaN"
| "fadd PInf NInf = NaN"
| "fadd NInf PInf = NaN"
| "fadd PInf _ = PInf"
| "fadd _ PInf = PInf"
| "fadd NInf _ = NInf"
| "fadd _ NInf = NInf"

definition fsub :: "pyfloat \<Rightarrow> pyfloat \<Rightarrow> pyfloat" where
  "fsub x y = fadd x (fneg y)"

fun fmul :: "pyfloat \<Rightarrow> pyfloat \<Rightarrow> pyfloat" where
  "fmul (Fin a) (Fin b) = Fin (a * b)"
| "fmul NaN _ = NaN"
| "fmul _ NaN = NaN"
| "fmul x y = inf_signed (sgn_of x * sgn_of y)"

text \<open>
  Python's \<^verbatim>\<open>x / d\<close> on floats raises \<^verbatim>\<open>ZeroDivisionError\<close> for a zero divisor;
  numpy's scalar division returns an infinity or NaN instead (with a warning).
  The divisors of the code are finite.
\<close>

definition py_truediv :: "pyfloat \<Rightarrow> real \<Rightarrow> py_error + pyfloat" where
  "py_truediv x d =
     (if d = 0 then Inl ZeroDivisionError
      else Inr (case x of Fin a \<Rightarrow> Fin (a / d) | NaN \<Rightarrow> NaN | _ \<Rightarrow> inf_signed (sgn_of x * sgn d)))"

definition np_truediv :: "real \<Rightarrow> real \<Rightarrow> pyfloat" where
  "np_truediv a b = (if b = 0 then inf_signed a else Fin (a / b))"

text \<open>The comparison \<^verbatim>\<open><\<close>: false whenever an operand is NaN.\<close>

fun flt :: "pyfloat \<Rightarrow> pyfloat \<Rightarrow> bool" where
  "flt (Fin a) (Fin b) = (a < b)"
| "flt NaN _ = False"
| "flt _ NaN = False"
| "flt NInf NInf = False"
| "flt NInf _ = True"
| "flt PInf _ = False"
| "flt _ PInf = True"
| "flt _ NInf = False"

text \<open>
  The built-ins \<^verbatim>\<open>max(a, b)\<close> and \<^verbatim>\<open>min(a, b)\<close> keep the first argument unless
  the second is strictly greater (smaller). An \<^verbatim>\<open>int\<close> argument compares by value
  and is written as the finite float of the same value.
\<close>

definition py_max :: "pyfloat \<Rightarrow> pyfloat \<Rightarrow> pyfloat" where
  "py_max a b = (if flt a b then b else a)"

definition py_min :: "pyfloat \<Rightarrow> pyfloat \<Rightarrow> pyfloat" where
  "py_min a b = (if flt b a then b else a)"

text \<open>
  \<^verbatim>\<open>round(x)\<close> with one argument: the nearest integer, ties to the even one;
  \<^verbatim>\<open>OverflowError\<close> on an infinity, \<^verbatim>\<open>ValueError\<close> on NaN.
\<close>

definition round_half_even :: "real \<Rightarrow> int" where
  "round_half_even x =
     (let f = \<lfloor>x\<rfloor>; d = x - of_int f in
      if d < 1 / 2 then f else if 1 / 2 < d then f + 1 else if even f then f else f + 1)"

fun py_round :: "pyfloat \<Rightarrow> py_error + int" where
  "py_round (Fin x) = Inr (round_half_even x)"
| "py_round PInf = Inl OverflowError"
| "py_round NInf = Inl OverflowError"
| "py_round NaN = Inl ValueError"

text \<open>
  \<^verbatim>\<open>math.log10\<close>: \<^verbatim>\<open>ValueError\<close> (math domain error) on zero, on a negative
  number and on \<open>-inf\<close>; \<open>inf\<close> and NaN pass through.
\<close>

fun py_log10 :: "pyfloat \<Rightarrow> py_error + pyfloat" where
  "py_log10 (Fin x) = (if 0 < x then Inr (Fin (log 10 x)) else Inl ValueError)"
| "py_log10 PInf = Inr PInf"
| "py_log10 NInf = Inl ValueError"
| "py_log10 NaN = Inr NaN"

subsection \<open>DecibelSlider\<close>

text \<open>\<^verbatim>\<open>sample_style = (None, np.float32, 1.0, -24, 24)\<close>: the entries the code reads.\<close>

definition sample_style_2 :: real where "sample_style_2 = 1"
definition sample_style_3 :: real where "sample_style_3 = - 24"
definition sample_style_4 :: real where "sample_style_4 = 24"

definition INT_MIN :: int where "INT_MIN = 0"
definition INT_MAX :: int where "INT_MAX = 1000000"

text \<open>
  The slider: its two decibel bounds and the integer value of the underlying
  \<^verbatim>\<open>QSlider\<close>, whose range \<^verbatim>\<open>__init__\<close> sets to \<open>[INT_MIN, INT_MAX]\<close>.
\<close>

record DecibelSlider =
  low_db :: real
  high_db :: real
  slider_value :: int

text \<open>\<^verbatim>\<open>__init__\<close>; a new \<^verbatim>\<open>QSlider\<close> has value 0.\<close>

definition DecibelSlider_init :: "real \<Rightarrow> real \<Rightarrow> DecibelSlider" where
  "DecibelSlider_init lo hi = \<lparr>low_db = lo, high_db = hi, slider_value = 0\<rparr>"

text \<open>\<^verbatim>\<open>QSlider.setValue\<close> bounds its argument by the slider's range and stores it.\<close>

definition setValue :: "DecibelSlider \<Rightarrow> int \<Rightarrow> DecibelSlider" where
  "setValue s v = s\<lparr>slider_value := max INT_MIN (min INT_MAX v)\<rparr>"

definition db_to_power_ratio :: "real \<Rightarrow> real" where
  "db_to_power_ratio db = 10 powr (db / 10)"

definition db_to_amplitude_ratio :: "real \<Rightarrow> real" where
  "db_to_amplitude_ratio db = 10 powr (db / 20)"

definition db_to_int :: "DecibelSlider \<Rightarrow> pyfloat \<Rightarrow> py_error + pyfloat" where
  "db_to_int s db =
     py_truediv (fmul (fsub db (Fin (low_db s))) (Fin (of_int (INT_MAX - INT_MIN))))
                (high_db s - low_db s)"

definition int_to_db :: "DecibelSlider \<Rightarrow> int \<Rightarrow> real" where
  "int_to_db s v =
     of_int (v - INT_MIN) * (high_db s - low_db s) / of_int (INT_MAX - INT_MIN) + low_db s"

definition decibel :: "DecibelSlider \<Rightarrow> real" where
  "decibel s = int_to_db s (slider_value s)"

definition power_ratio :: "DecibelSlider \<Rightarrow> real" where
  "power_ratio s = db_to_power_ratio (decibel s)"

definition amplitude_ratio :: "DecibelSlider \<Rightarrow> real" where
  "amplitude_ratio s = db_to_amplitude_ratio (decibel s)"

text \<open>
  The argument that \<^verbatim>\<open>set_decibel\<close> passes to \<^verbatim>\<open>setValue\<close>:
  \<^verbatim>\<open>round(min(INT_MAX, max(INT_MIN, self.db_to_int(db))))\<close>.
\<close>

definition set_decibel_position :: "DecibelSlider \<Rightarrow> pyfloat \<Rightarrow> py_error + int" where
  "set_decibel_position s db =
     (case db_to_int s db of
        Inl e \<Rightarrow> Inl e
      | Inr x \<Rightarrow> py_round (py_min (Fin (of_int INT_MAX)) (py_max (Fin (of_int INT_MIN)) x)))"

definition set_decibel :: "DecibelSlider \<Rightarrow> pyfloat \<Rightarrow> py_error + DecibelSlider" where
  "set_decibel s db =
     (case set_decibel_position s db of Inl e \<Rightarrow> Inl e | Inr v \<Rightarrow> Inr (setValue s v))"

definition set_power_ratio :: "DecibelSlider \<Rightarrow> pyfloat \<Rightarrow> py_error + DecibelSlider" where
  "set_power_ratio s pr =
     (case py_log10 pr of Inl e \<Rightarrow> Inl e | Inr l \<Rightarrow> set_decibel s (fmul (Fin 10) l))"

definition set_amplitude_ratio :: "DecibelSlider \<Rightarrow> pyfloat \<Rightarrow> py_error + DecibelSlider" where
  "set_amplitude_ratio s ar =
     (case py_log10 ar of Inl e \<Rightarrow> Inl e | Inr l \<Rightarrow> set_decibel s (fmul (Fin 20) l))"

subsection \<open>The numpy operations the widget uses\<close>

text \<open>
  \<^verbatim>\<open>np.fft.rfft\<close> is a library function. It is defined here by its documented
  contract: for a real input of length \<open>n\<close>, the bins \<open>0 \<dots> n div 2\<close> of the discrete
  Fourier transform \<open>A\<^sub>k = \<Sum>\<^sub>m a\<^sub>m exp (- 2 \<pi> i m k / n)\<close>; an empty input raises
  \<^verbatim>\<open>ValueError\<close>.
\<close>

definition dft_bin :: "chunk \<Rightarrow> nat \<Rightarrow> complex" where
  "dft_bin a k =
     (\<Sum>m<length a. of_real (a ! m) * cis (- 2 * pi * real m * real k / real (length a)))"

definition rfft :: "chunk \<Rightarrow> py_error + complex list" where
  "rfft a =
     (if length a = 0 then Inl ValueError
      else Inr (map (dft_bin a) [0..<length a div 2 + 1]))"

text \<open>
  \<^verbatim>\<open>np.fft.rfftfreq(n, d)\<close>: \<^verbatim>\<open>val = 1.0/(n*d)\<close>, then
  \<^verbatim>\<open>arange(0, n//2 + 1) * val\<close>.
\<close>

definition rfftfreq :: "nat \<Rightarrow> real \<Rightarrow> py_error + real list" where
  "rfftfreq n d =
     (if real n * d = 0 then Inl ZeroDivisionError
      else Inr (map (\<lambda>i. real i * (1 / (real n * d))) [0..<n div 2 + 1]))"

text \<open>
  The slice assignment \<^verbatim>\<open>a[0:k] = 0.0\<close>. A slice bound is clipped to the length
  of the array, a negative one counts from the end.
\<close>

definition slice_stop :: "nat \<Rightarrow> int \<Rightarrow> nat" where
  "slice_stop n k = (if k < 0 then nat (max 0 (int n + k)) else min (nat k) n)"

definition assign_zero_upto :: "int \<Rightarrow> complex list \<Rightarrow> complex list" where
  "assign_zero_upto k a = replicate (slice_stop (length a) k) 0 @ drop (slice_stop (length a) k) a"

text \<open>\<^verbatim>\<open>.max()\<close> of an array: \<^verbatim>\<open>ValueError\<close> on an empty one.\<close>

fun amax :: "real list \<Rightarrow> py_error + real" where
  "amax [] = Inl ValueError"
| "amax (x # xs) = Inr (fold max xs x)"

text \<open>
  \<^verbatim>\<open>fft_frame *= gain\<close> multiplies every complex bin by the scalar, cast to a
  complex number with imaginary part 0:
  \<open>(a + b i) (g + 0 i) = (a g - b 0) + (a 0 + b g) i\<close>, computed in float arithmetic.
  \<^verbatim>\<open>np.abs\<close> of a complex number is the hypotenuse of its parts: infinite when
  a part is infinite, else NaN when a part is NaN.
\<close>

definition np_scale :: "pyfloat \<Rightarrow> complex \<Rightarrow> pyfloat \<times> pyfloat" where
  "np_scale g z =
     (fsub (fmul (Fin (Re z)) g) (fmul (Fin (Im z)) (Fin 0)),
      fadd (fmul (Fin (Re z)) (Fin 0)) (fmul (Fin (Im z)) g))"

fun np_abs :: "pyfloat \<times> pyfloat \<Rightarrow> pyfloat" where
  "np_abs (Fin a, Fin b) = Fin (sqrt (a\<^sup>2 + b\<^sup>2))"
| "np_abs (PInf, _) = PInf"
| "np_abs (NInf, _) = PInf"
| "np_abs (_, PInf) = PInf"
| "np_abs (_, NInf) = PInf"
| "np_abs (_, _) = NaN"

subsection \<open>LiveFFTWidget\<close>

text \<open>
  The state a tick reads and writes: the recorder, the three controls, the two
  precomputed axes, the data of the two plotted lines and the number of redraws.
\<close>

record LiveFFTWidget =
  mic :: MicrophoneRecorder
  autoGainCheckBox :: bool
  fixedGainSlider :: DecibelSlider
  cutoffSlider :: int
  freq_vect :: "real list"
  time_vect :: "real list"
  line_top :: "real list \<times> real list"
  line_bottom :: "real list \<times> pyfloat list"
  draws :: nat

text \<open>
  \<^verbatim>\<open>initData\<close> for the class attributes \<open>chunksize\<close> and \<open>rate\<close>: the started
  recorder, the frequency axis \<^verbatim>\<open>np.fft.rfftfreq(chunksize, 1./rate)\<close> and the time
  axis \<^verbatim>\<open>np.arange(chunksize) / rate * 1000\<close>.
\<close>

definition initData :: "nat \<Rightarrow> nat \<Rightarrow> py_error + MicrophoneRecorder \<times> real list \<times> real list" where
  "initData cs rt =
     (case start (MicrophoneRecorder_init rt cs) of
        Inl e \<Rightarrow> Inl e
      | Inr m \<Rightarrow>
          if rate m = 0 then Inl ZeroDivisionError
          else (case rfftfreq (chunksize m) (1 / real (rate m)) of
                  Inl e \<Rightarrow> Inl e
                | Inr fv \<Rightarrow>
                    Inr (m, fv, map (\<lambda>i. real i / real (rate m) * 1000) [0..<chunksize m])))"

text \<open>
  The gain of a tick (the \<^verbatim>\<open>if\<close> on the auto-gain check box in
  \<^verbatim>\<open>handleNewData\<close>), with the slider afterwards:
  \<^verbatim>\<open>gain = 1/np.abs(fft_frame).max()*sample_style[2]\<close> followed by
  \<^verbatim>\<open>set_power_ratio(gain)\<close>, or \<^verbatim>\<open>gain = power_ratio()\<close>.
\<close>

definition tick_gain :: "LiveFFTWidget \<Rightarrow> complex list \<Rightarrow> py_error + pyfloat \<times> DecibelSlider" where
  "tick_gain w fft_frame =
     (if autoGainCheckBox w then
        (case amax (map cmod fft_frame) of
           Inl e \<Rightarrow> Inl e
         | Inr M \<Rightarrow>
             (let gain = fmul (np_truediv 1 M) (Fin sample_style_2) in
              case set_power_ratio (fixedGainSlider w) gain of
                Inl e \<Rightarrow> Inl e
              | Inr s \<Rightarrow> Inr (gain, s)))
      else Inr (Fin (power_ratio (fixedGainSlider w)), fixedGainSlider w))"

text \<open>\<^verbatim>\<open>handleNewData\<close>, the handler of the timer tick.\<close>

definition handleNewData :: "LiveFFTWidget \<Rightarrow> py_error + LiveFFTWidget" where
  "handleNewData w =
     (let (fs, m) = get_frames (mic w) in
      if length fs > 0 then
        (let current_frame = last fs;
             w1 = w\<lparr>mic := m, line_top := (time_vect w, current_frame)\<rparr> in
         case rfft current_frame of
           Inl e \<Rightarrow> Inl e
         | Inr fft_frame \<Rightarrow>
             (let fft_cut = assign_zero_upto (cutoffSlider w) fft_frame in
              case tick_gain w1 fft_cut of
                Inl e \<Rightarrow> Inl e
              | Inr (gain, s) \<Rightarrow>
                  Inr (w1\<lparr>fixedGainSlider := s,
                          line_bottom := (freq_vect w, map (\<lambda>z. np_abs (np_scale gain z)) fft_cut),
                          draws := draws w + 1\<rparr>)))
      else Inr (w\<lparr>mic := m\<rparr>))"

text \<open>
  What a tick is observed by: the gain it used, the slider position it left and the
  magnitudes it displayed.
\<close>

definition tick_slider_value :: "LiveFFTWidget \<Rightarrow> py_error + int" where
  "tick_slider_value w =
     (case handleNewData w of Inl e \<Rightarrow> Inl e | Inr w' \<Rightarrow> Inr (slider_value (fixedGainSlider w')))"

definition tick_magnitudes :: "LiveFFTWidget \<Rightarrow> py_error + pyfloat list" where
  "tick_magnitudes w =
     (case handleNewData w of Inl e \<Rightarrow> Inl e | Inr w' \<Rightarrow> Inr (snd (line_bottom w')))"

section \<open>Properties\<close>

subsection \<open>The capture buffer\<close>

lemma frames_foldl_capture_append:
  "frames (foldl capture_append m cs) = frames m @ cs"
  by (induction cs arbitrary: m) (simp_all add: capture_append_def)

text \<open>
  Claim C4. The drain \<^verbatim>\<open>get_frames\<close> is exhaustive and exclusive: after any
  sequence of appends to a buffer, one drain returns everything the buffer held, in
  append order (for a freshly constructed or just drained recorder: exactly the
  appended chunks), the buffer is empty afterwards, and a second drain with no
  append in between returns the empty list.
\<close>

theorem get_frames_exhaustive_exclusive:
  "fst (get_frames (foldl capture_append m cs)) = frames m @ cs
   \<and> fst (get_frames (foldl capture_append (MicrophoneRecorder_init r c) cs)) = cs
   \<and> fst (get_frames (foldl capture_append (snd (get_frames m)) cs)) = cs
   \<and> frames (snd (get_frames (foldl capture_append m cs))) = []
   \<and> fst (get_frames (snd (get_frames (foldl capture_append m cs)))) = []"
  by (simp add: get_frames_def frames_foldl_capture_append MicrophoneRecorder_init_def)

subsection \<open>Teardown\<close>

text \<open>
  Claim C3 asks that \<^verbatim>\<open>close\<close> on a recorder whose \<^verbatim>\<open>start()\<close> was never
  called be a no-op. The code joins the thread unconditionally, so on a freshly
  constructed recorder \<^verbatim>\<open>close\<close> raises \<^verbatim>\<open>RuntimeError\<close>, whatever the
  configuration.
\<close>

theorem close_unstarted_raises:
  "close (MicrophoneRecorder_init r c) inflight = Inl RuntimeError"
  by (simp add: close_def MicrophoneRecorder_init_def)

subsection \<open>The decibel slider\<close>

lemma round_half_even_near: "\<bar>of_int (round_half_even x) - x\<bar> \<le> 1 / 2"
  unfolding round_half_even_def Let_def by (auto simp: abs_le_iff)

lemma round_half_even_of_int [simp]: "round_half_even (of_int i) = i"
  by (simp add: round_half_even_def)

lemma round_half_even_mono:
  assumes "x \<le> y" shows "round_half_even x \<le> round_half_even y"
proof (cases "\<lfloor>x\<rfloor> = \<lfloor>y\<rfloor>")
  case True
  then show ?thesis using assms unfolding round_half_even_def Let_def by auto
next
  case False
  with assms have "\<lfloor>x\<rfloor> < \<lfloor>y\<rfloor>" by (simp add: floor_mono order.not_eq_order_implies_strict)
  moreover have "round_half_even x \<le> \<lfloor>x\<rfloor> + 1" unfolding round_half_even_def Let_def by auto
  moreover have "\<lfloor>y\<rfloor> \<le> round_half_even y" unfolding round_half_even_def Let_def by auto
  ultimately show ?thesis by linarith
qed

lemma round_half_even_range:
  assumes "of_int a \<le> x" "x \<le> of_int b"
  shows "a \<le> round_half_even x \<and> round_half_even x \<le> b"
  using round_half_even_mono[OF assms(1)] round_half_even_mono[OF assms(2)] by simp

lemma db_to_int_Fin:
  "high_db s \<noteq> low_db s \<Longrightarrow>
   db_to_int s (Fin db) = Inr (Fin ((db - low_db s) * 1000000 / (high_db s - low_db s)))"
  by (simp add: db_to_int_def py_truediv_def fsub_def INT_MAX_def INT_MIN_def)

lemma db_to_int_PInf:
  "low_db s < high_db s \<Longrightarrow> db_to_int s PInf = Inr PInf"
  by (simp add: db_to_int_def py_truediv_def fsub_def INT_MAX_def INT_MIN_def inf_signed_def)


lemma clamp_Fin:
  "py_min (Fin b) (py_max (Fin a) (Fin x)) = Fin (min b (max a x))"
  by (simp add: py_min_def py_max_def min_def max_def)


lemma clamp_PInf:
  "py_min (Fin (of_int INT_MAX)) (py_max (Fin (of_int INT_MIN)) PInf) = Fin (of_int INT_MAX)"
  by (simp add: py_min_def py_max_def)


lemma setValue_in_range:
  "INT_MIN \<le> v \<Longrightarrow> v \<le> INT_MAX \<Longrightarrow> setValue s v = s\<lparr>slider_value := v\<rparr>"
  by (simp add: setValue_def)

lemma set_decibel_position_Fin:
  assumes "high_db s \<noteq> low_db s"
  shows "set_decibel_position s (Fin db) =
         Inr (round_half_even (min 1000000 (max 0 ((db - low_db s) * 1000000 / (high_db s - low_db s)))))"
  by (simp add: set_decibel_position_def db_to_int_Fin[OF assms] clamp_Fin INT_MAX_def INT_MIN_def)

lemma set_decibel_position_PInf:
  assumes "low_db s < high_db s"
  shows "set_decibel_position s PInf = Inr INT_MAX"
  by (simp add: set_decibel_position_def db_to_int_PInf[OF assms] clamp_PInf)


lemma set_decibel_Fin:
  assumes "high_db s \<noteq> low_db s"
  shows "set_decibel s (Fin db) =
         Inr (s\<lparr>slider_value :=
                round_half_even (min 1000000 (max 0 ((db - low_db s) * 1000000 / (high_db s - low_db s))))\<rparr>)"
proof -
  let ?c = "min 1000000 (max 0 ((db - low_db s) * 1000000 / (high_db s - low_db s)))"
  have "of_int INT_MIN \<le> ?c" "?c \<le> of_int INT_MAX"
    by (simp_all add: INT_MIN_def INT_MAX_def)
  from round_half_even_range[OF this]
  show ?thesis
    by (simp add: set_decibel_def set_decibel_position_Fin[OF assms] setValue_in_range)
qed


lemma set_decibel_PInf:
  assumes "low_db s < high_db s"
  shows "set_decibel s PInf = Inr (s\<lparr>slider_value := INT_MAX\<rparr>)"
  by (simp add: set_decibel_def set_decibel_position_PInf[OF assms] setValue_def INT_MAX_def INT_MIN_def)

lemma set_power_ratio_Fin:
  "0 < p \<Longrightarrow> set_power_ratio s (Fin p) = set_decibel s (Fin (10 * log 10 p))"
  by (simp add: set_power_ratio_def)

lemma set_power_ratio_PInf:
  "set_power_ratio s PInf = set_decibel s PInf"
  by (simp add: set_power_ratio_def inf_signed_def)

lemma decibel_update:
  "decibel (s\<lparr>slider_value := v\<rparr>) = int_to_db s v"
  by (simp add: decibel_def int_to_db_def)

lemma decibel_roundtrip_aux:
  assumes lh: "low_db s < high_db s" and lo: "low_db s \<le> db" and hi: "db \<le> high_db s"
  shows "set_decibel s (Fin db) =
           Inr (s\<lparr>slider_value := round_half_even ((db - low_db s) * 1000000 / (high_db s - low_db s))\<rparr>)"
    and "\<bar>int_to_db s (round_half_even ((db - low_db s) * 1000000 / (high_db s - low_db s))) - db\<bar>
         \<le> (high_db s - low_db s) / 2000000"
proof -
  let ?w = "high_db s - low_db s"
  let ?x = "(db - low_db s) * 1000000 / ?w"
  have w: "0 < ?w" using lh by simp
  have x0: "0 \<le> ?x" using lo w by simp
  have "(db - low_db s) * 1000000 \<le> 1000000 * ?w" using hi by simp
  then have x1: "?x \<le> 1000000" using w by (simp add: pos_divide_le_eq)
  have c: "min 1000000 (max 0 ?x) = ?x" using x0 x1 by simp
  show "set_decibel s (Fin db) = Inr (s\<lparr>slider_value := round_half_even ?x\<rparr>)"
    using set_decibel_Fin[of s db] lh c by simp
  define e where "e = of_int (round_half_even ?x) - ?x"
  have e: "\<bar>e\<bar> \<le> 1 / 2" unfolding e_def by (rule round_half_even_near)
  have "int_to_db s (round_half_even ?x) - db = e * ?w / 1000000"
    unfolding e_def using w by (simp add: int_to_db_def INT_MAX_def INT_MIN_def field_simps)
  then have "\<bar>int_to_db s (round_half_even ?x) - db\<bar> = \<bar>e * ?w / 1000000\<bar>"
    by (simp only:)
  also have "\<dots> = \<bar>e\<bar> * ?w / 1000000"
    using w by (simp add: abs_mult)
  also have "\<dots> \<le> (1 / 2) * ?w / 1000000"
    using e w by (intro divide_right_mono mult_right_mono) simp_all
  finally show "\<bar>int_to_db s (round_half_even ?x) - db\<bar> \<le> ?w / 2000000" by simp
qed

text \<open>
  Claim C7. For bounds \<open>low_db < high_db\<close> and every \<open>db\<close> between them,
  \<^verbatim>\<open>set_decibel\<close> stores the affine position
  \<open>(db - low_db) * INT_MAX / (high_db - low_db)\<close> rounded to a nearest integer
  (at most one half away from it), and reading the slider back with
  \<^verbatim>\<open>decibel\<close> recovers \<open>db\<close> to within one position quantum
  \<open>(high_db - low_db) / INT_MAX\<close>.
\<close>

theorem decibel_roundtrip:
  assumes "low_db s < high_db s" and "low_db s \<le> db" and "db \<le> high_db s"
  shows "set_decibel s (Fin db)
           = Inr (s\<lparr>slider_value :=
                     round_half_even ((db - low_db s) * of_int INT_MAX / (high_db s - low_db s))\<rparr>)
         \<and> \<bar>of_int (round_half_even ((db - low_db s) * of_int INT_MAX / (high_db s - low_db s)))
             - (db - low_db s) * of_int INT_MAX / (high_db s - low_db s)\<bar> \<le> 1 / 2
         \<and> \<bar>decibel (s\<lparr>slider_value :=
                     round_half_even ((db - low_db s) * of_int INT_MAX / (high_db s - low_db s))\<rparr>) - db\<bar>
             \<le> (high_db s - low_db s) / of_int INT_MAX"
proof -
  let ?v = "round_half_even ((db - low_db s) * 1000000 / (high_db s - low_db s))"
  have "\<bar>int_to_db s ?v - db\<bar> \<le> (high_db s - low_db s) / 2000000"
    by (rule decibel_roundtrip_aux(2)[OF assms])
  also have "\<dots> \<le> (high_db s - low_db s) / 1000000"
    using assms(1) by simp
  finally have "\<bar>decibel (s\<lparr>slider_value := ?v\<rparr>) - db\<bar> \<le> (high_db s - low_db s) / of_int INT_MAX"
    by (simp add: decibel_update INT_MAX_def)
  then show ?thesis
    using decibel_roundtrip_aux(1)[OF assms] round_half_even_near
    by (simp add: INT_MAX_def)
qed

theorem decibel_roundtrip_witness:
  "low_db (DecibelSlider_init (- 24) 24) < high_db (DecibelSlider_init (- 24) 24)
   \<and> low_db (DecibelSlider_init (- 24) 24) \<le> 3 \<and> 3 \<le> high_db (DecibelSlider_init (- 24) 24)
   \<and> set_decibel (DecibelSlider_init (- 24) 24) (Fin 3)
       = Inr \<lparr>low_db = - 24, high_db = 24, slider_value = 562500\<rparr>
   \<and> \<bar>decibel \<lparr>low_db = - 24, high_db = 24, slider_value = 562500\<rparr> - 3\<bar> \<le> 48 / 1000000"
  using decibel_roundtrip [of "DecibelSlider_init (- 24) 24" 3]
  by (simp add: DecibelSlider_init_def INT_MAX_def round_half_even_def)


lemma set_decibel_above:
  assumes lh: "low_db s < high_db s" and "high_db s \<le> d"
  shows "set_decibel s (Fin d) = Inr (s\<lparr>slider_value := INT_MAX\<rparr>)"
proof -
  let ?w = "high_db s - low_db s"
  have w: "0 < ?w" using lh by simp
  have "1000000 * ?w \<le> (d - low_db s) * 1000000" using assms by simp
  then have "1000000 \<le> (d - low_db s) * 1000000 / ?w" using w by (simp add: pos_le_divide_eq)
  then have "min 1000000 (max 0 ((d - low_db s) * 1000000 / ?w)) = 1000000" by simp
  then show ?thesis using lh round_half_even_of_int[of 1000000]
    by (simp add: set_decibel_Fin INT_MAX_def)
qed

lemma set_decibel_below:
  assumes lh: "low_db s < high_db s" and "d \<le> low_db s"
  shows "set_decibel s (Fin d) = Inr (s\<lparr>slider_value := INT_MIN\<rparr>)"
proof -
  let ?w = "high_db s - low_db s"
  have w: "0 < ?w" using lh by simp
  have "(d - low_db s) * 1000000 / ?w \<le> 0" using w assms by (simp add: divide_le_0_iff)
  then have "min 1000000 (max 0 ((d - low_db s) * 1000000 / ?w)) = 0" by simp
  then show ?thesis using lh round_half_even_of_int[of 0]
    by (simp add: set_decibel_Fin INT_MIN_def)
qed

lemma int_to_db_INT_MAX: "int_to_db s INT_MAX = high_db s"
  by (simp add: int_to_db_def INT_MAX_def INT_MIN_def field_simps)

lemma int_to_db_INT_MIN: "int_to_db s INT_MIN = low_db s"
  by (simp add: int_to_db_def INT_MAX_def INT_MIN_def)



lemma rfft_nonempty:
  "c \<noteq> [] \<Longrightarrow> rfft c = Inr (map (dft_bin c) [0..<length c div 2 + 1])"
  by (simp add: rfft_def)

lemma length_rfft:
  "rfft c = Inr X \<Longrightarrow> length X = length c div 2 + 1"
  by (auto simp add: rfft_def split: if_splits)

lemma slice_stop_le: "slice_stop n k \<le> n"
  unfolding slice_stop_def by auto

lemma slice_stop_nonneg: "0 \<le> k \<Longrightarrow> nat k \<le> n \<Longrightarrow> slice_stop n k = nat k"
  by (simp add: slice_stop_def)

lemma length_assign_zero_upto: "length (assign_zero_upto k a) = length a"
  by (simp add: assign_zero_upto_def slice_stop_le)

lemma nth_assign_zero_upto:
  "i < length a \<Longrightarrow>
   assign_zero_upto k a ! i = (if i < slice_stop (length a) k then 0 else a ! i)"
  using slice_stop_le[of "length a" k]
  by (auto simp add: assign_zero_upto_def nth_append)

lemma assign_zero_upto_prefix:
  assumes "0 \<le> k" and "nat k \<le> length a"
  shows "i < nat k \<Longrightarrow> assign_zero_upto k a ! i = 0"
    and "nat k \<le> i \<Longrightarrow> i < length a \<Longrightarrow> assign_zero_upto k a ! i = a ! i"
  using assms by (simp_all add: nth_assign_zero_upto slice_stop_nonneg)

text \<open>
  Claim C6. For a chunk of length \<open>N > 0\<close> and a cutoff \<open>0 \<le> k \<le> N div 2\<close>, the
  transform has \<open>N div 2 + 1\<close> bins and the cutoff step
  \<^verbatim>\<open>fft_frame[0:k] = 0.0\<close> keeps that length, sets every bin with index below
  \<open>k\<close> to zero and leaves every bin with index in \<open>[k, N div 2]\<close> as the transform
  gave it.
\<close>

theorem cutoff_zeroes_prefix:
  assumes "c \<noteq> []" and "0 \<le> k" and "k \<le> int (length c div 2)"
  shows "\<exists>X. rfft c = Inr X \<and> length X = length c div 2 + 1
           \<and> length (assign_zero_upto k X) = length c div 2 + 1
           \<and> (\<forall>i. i < nat k \<longrightarrow> assign_zero_upto k X ! i = 0)
           \<and> (\<forall>i. nat k \<le> i \<and> i \<le> length c div 2 \<longrightarrow> assign_zero_upto k X ! i = X ! i)"
proof -
  from assms(1) obtain X where X: "rfft c = Inr X" by (auto simp add: rfft_def)
  have len: "length X = length c div 2 + 1" using X by (rule length_rfft)
  have k: "nat k \<le> length X" using assms(2,3) len by simp
  have z: "\<forall>i. i < nat k \<longrightarrow> assign_zero_upto k X ! i = 0"
    using assign_zero_upto_prefix(1)[OF assms(2) k] by blast
  have "i < length X" if "i \<le> length c div 2" for i
    using that len by simp
  then have u: "\<forall>i. nat k \<le> i \<and> i \<le> length c div 2 \<longrightarrow> assign_zero_upto k X ! i = X ! i"
    using assign_zero_upto_prefix(2)[OF assms(2) k] by blast
  show ?thesis
    using X len z u by (simp add: length_assign_zero_upto)
qed

theorem cutoff_zeroes_prefix_witness:
  "[1, 0, 0, 0 :: real] \<noteq> [] \<and> (0::int) \<le> 1 \<and> (1::int) \<le> int (length [1, 0, 0, 0 :: real] div 2)
   \<and> rfft [1, 0, 0, 0] = Inr [1, 1, 1]
   \<and> assign_zero_upto 1 [1, 1, 1] = [0, 1, 1]"
  using cutoff_zeroes_prefix [of "[1, 0, 0, 0]" 1]
  by (simp add: rfft_def dft_bin_def assign_zero_upto_def slice_stop_def)

text \<open>
  Claim C9. For chunk size 8 and rate 48000, \<^verbatim>\<open>initData\<close> computes the frequency
  axis \<open>[0, 6000, 12000, 18000, 24000]\<close> (five entries, \<open>i * rate / chunksize\<close>) and
  a time axis of length 8 whose entry \<open>i\<close> is \<open>i / rate * 1000\<close> milliseconds; the
  transform of any chunk of length 8 has five bins.
\<close>

theorem axes_for_8_at_48000:
  assumes "length c = 8"
  shows "initData 8 48000
           = Inr (\<lparr>rate = 48000, chunksize = 8, stop = False, frames = [], t = Alive\<rparr>,
                  [0, 6000, 12000, 18000, 24000],
                  map (\<lambda>i. real i / 48000 * 1000) [0..<8])
         \<and> length (map (\<lambda>i. real i / 48000 * 1000) [0..<8]) = 8
         \<and> (\<exists>X. rfft c = Inr X \<and> length X = 5)"
proof -
  have "c \<noteq> []" using assms by auto
  then have "rfft c = Inr (map (dft_bin c) [0..<length c div 2 + 1])" by (rule rfft_nonempty)
  then have r: "\<exists>X. rfft c = Inr X \<and> length X = 5" using assms by simp
  have u: "[0..<5] = [0, 1, 2, 3, 4]" by (simp add: upt_rec)
  have i: "initData 8 48000
           = Inr (\<lparr>rate = 48000, chunksize = 8, stop = False, frames = [], t = Alive\<rparr>,
                  [0, 6000, 12000, 18000, 24000],
                  map (\<lambda>i. real i / 48000 * 1000) [0..<8])"
    by (simp add: initData_def start_def MicrophoneRecorder_init_def rfftfreq_def u del: upt_Suc)
  show ?thesis using r i by simp
qed

theorem axes_for_8_at_48000_witness:
  "length [1, 0, 0, 0, 0, 0, 0, 0 :: real] = 8
   \<and> rfft [1, 0, 0, 0, 0, 0, 0, 0] = Inr [1, 1, 1, 1, 1]
   \<and> length [1, 1, 1, 1, 1 :: complex] = 5"
  using axes_for_8_at_48000 [of "[1, 0, 0, 0, 0, 0, 0, 0]"]
  by (simp add: rfft_def dft_bin_def)

subsection \<open>The tick\<close>

lemma handleNewData_empty:
  "frames (mic w) = [] \<Longrightarrow> handleNewData w = Inr w"
  by (simp add: handleNewData_def get_frames_def)

lemma tick_gain_cong:
  "autoGainCheckBox w = autoGainCheckBox w' \<Longrightarrow> fixedGainSlider w = fixedGainSlider w'
   \<Longrightarrow> tick_gain w X = tick_gain w' X"
  by (simp add: tick_gain_def Let_def split: sum.splits)

lemma handleNewData_nonempty:
  assumes "frames (mic w) \<noteq> []"
  shows "handleNewData w =
     (case rfft (last (frames (mic w))) of
        Inl e \<Rightarrow> Inl e
      | Inr X \<Rightarrow>
         (case tick_gain w (assign_zero_upto (cutoffSlider w) X) of
            Inl e \<Rightarrow> Inl e
          | Inr (gain, s) \<Rightarrow>
              Inr (w\<lparr>mic := (mic w)\<lparr>frames := []\<rparr>,
                      line_top := (time_vect w, last (frames (mic w))),
                      fixedGainSlider := s,
                      line_bottom := (freq_vect w,
                         map (\<lambda>z. np_abs (np_scale gain z)) (assign_zero_upto (cutoffSlider w) X)),
                      draws := draws w + 1\<rparr>)))"
  using assms
  by (simp add: handleNewData_def get_frames_def Let_def
      tick_gain_cong[of "w\<lparr>mic := (mic w)\<lparr>frames := []\<rparr>, line_top := (time_vect w, last (frames (mic w)))\<rparr>" w]
      split: sum.splits prod.splits)

text \<open>
  Claim C10. With auto-gain switched off, a tick that returns leaves the gain slider
  (bounds and position) exactly as it was: the tick only reads
  \<^verbatim>\<open>power_ratio()\<close>.
\<close>

theorem manual_tick_keeps_slider:
  assumes "\<not> autoGainCheckBox w" and "handleNewData w = Inr w'"
  shows "fixedGainSlider w' = fixedGainSlider w"
proof (cases "frames (mic w) = []")
  case True
  then show ?thesis using assms(2) by (simp add: handleNewData_empty)
next
  case False
  show ?thesis
    using assms
    by (auto simp add: handleNewData_nonempty[OF False] tick_gain_def split: sum.splits)
qed

theorem manual_tick_keeps_slider_witness:
  "\<not> autoGainCheckBox
        \<lparr>mic = \<lparr>rate = 48000, chunksize = 2, stop = False, frames = [[0, 0], [1, 0]], t = Alive\<rparr>,
         autoGainCheckBox = False,
         fixedGainSlider = \<lparr>low_db = - 24, high_db = 24, slider_value = 500000\<rparr>,
         cutoffSlider = 1, freq_vect = [0, 24000], time_vect = [0, 1 / 48],
         line_top = ([0, 1 / 48], [1, 1]), line_bottom = ([0, 24000], [Fin 1, Fin 1]), draws = 0\<rparr>
   \<and> handleNewData
        \<lparr>mic = \<lparr>rate = 48000, chunksize = 2, stop = False, frames = [[0, 0], [1, 0]], t = Alive\<rparr>,
         autoGainCheckBox = False,
         fixedGainSlider = \<lparr>low_db = - 24, high_db = 24, slider_value = 500000\<rparr>,
         cutoffSlider = 1, freq_vect = [0, 24000], time_vect = [0, 1 / 48],
         line_top = ([0, 1 / 48], [1, 1]), line_bottom = ([0, 24000], [Fin 1, Fin 1]), draws = 0\<rparr>
     = Inr
        \<lparr>mic = \<lparr>rate = 48000, chunksize = 2, stop = False, frames = [], t = Alive\<rparr>,
         autoGainCheckBox = False,
         fixedGainSlider = \<lparr>low_db = - 24, high_db = 24, slider_value = 500000\<rparr>,
         cutoffSlider = 1, freq_vect = [0, 24000], time_vect = [0, 1 / 48],
         line_top = ([0, 1 / 48], [1, 0]), line_bottom = ([0, 24000], [Fin 0, Fin 1]), draws = 1\<rparr>"
  using manual_tick_keeps_slider
    [of "\<lparr>mic = \<lparr>rate = 48000, chunksize = 2, stop = False, frames = [[0, 0], [1, 0]], t = Alive\<rparr>,
         autoGainCheckBox = False,
         fixedGainSlider = \<lparr>low_db = - 24, high_db = 24, slider_value = 500000\<rparr>,
         cutoffSlider = 1, freq_vect = [0, 24000], time_vect = [0, 1 / 48],
         line_top = ([0, 1 / 48], [1, 1]), line_bottom = ([0, 24000], [Fin 1, Fin 1]), draws = 0\<rparr>"
        "\<lparr>mic = \<lparr>rate = 48000, chunksize = 2, stop = False, frames = [], t = Alive\<rparr>,
         autoGainCheckBox = False,
         fixedGainSlider = \<lparr>low_db = - 24, high_db = 24, slider_value = 500000\<rparr>,
         cutoffSlider = 1, freq_vect = [0, 24000], time_vect = [0, 1 / 48],
         line_top = ([0, 1 / 48], [1, 0]), line_bottom = ([0, 24000], [Fin 0, Fin 1]), draws = 1\<rparr>"]
  by (simp add: handleNewData_def get_frames_def rfft_def dft_bin_def assign_zero_upto_def
      slice_stop_def tick_gain_def power_ratio_def db_to_power_ratio_def decibel_def int_to_db_def
      INT_MAX_def INT_MIN_def np_scale_def fsub_def)

lemma np_abs_np_scale_Fin:
  "np_abs (np_scale (Fin g) z) = Fin (\<bar>g\<bar> * cmod z)"
proof -
  have "(Re z * g)\<^sup>2 + (Im z * g)\<^sup>2 = (\<bar>g\<bar> * cmod z)\<^sup>2"
    by (simp add: cmod_def power_mult_distrib algebra_simps)
  then have "sqrt ((Re z * g)\<^sup>2 + (Im z * g)\<^sup>2) = \<bar>g\<bar> * cmod z"
    by (simp add: real_sqrt_unique)
  then show ?thesis by (simp add: np_scale_def fsub_def)
qed

lemma fold_max_eq_Max: "fold max xs (x::real) = Max (insert x (set xs))"
  using Max.set_eq_fold[of x xs] by simp

lemma amax_eq_Max:
  "xs \<noteq> [] \<Longrightarrow> amax xs = Inr (Max (set xs))"
  by (cases xs) (simp_all add: fold_max_eq_Max)

lemma amax_Inr:
  "amax xs = Inr M \<Longrightarrow> xs \<noteq> [] \<and> M = Max (set xs)"
  by (cases xs) (auto simp add: fold_max_eq_Max)

lemma amax_scale:
  assumes "amax xs = Inr M" and "0 \<le> g"
  shows "amax (map (\<lambda>x. g * x) xs) = Inr (g * M)"
proof -
  from amax_Inr[OF assms(1)] have ne: "xs \<noteq> []" and M: "M = Max (set xs)" by simp_all
  have "mono (\<lambda>x. g * x)" using assms(2) by (simp add: mono_def mult_left_mono)
  then have "g * Max (set xs) = Max ((\<lambda>x. g * x) ` set xs)"
    using ne by (intro mono_Max_commute) simp_all
  then show ?thesis using ne M by (simp add: amax_eq_Max)
qed

lemma power_ratio_pos: "0 < power_ratio s"
  by (simp add: power_ratio_def db_to_power_ratio_def)

text \<open>
  Claim C5. A tick drains the capture buffer. With an empty buffer the tick changes
  nothing: the whole widget state, and so the displayed frame, is what it was. With
  a non-empty buffer the tick is the tick of the last chunk alone: the chunks before
  the last one have no effect. Unless the transform or the gain raises, it empties
  the buffer, shows the last chunk verbatim against the time axis, shows the
  magnitudes of the gained, cutoff-filtered transform of the last chunk against the
  frequency axis, and redraws once. In manual mode, with a non-empty last chunk,
  it always returns, and the magnitudes are those of the filtered transform of the
  last chunk times \<^verbatim>\<open>power_ratio()\<close>.
\<close>

theorem tick_shows_last_chunk:
  "handleNewData (w\<lparr>mic := (mic w)\<lparr>frames := []\<rparr>\<rparr>) = Inr (w\<lparr>mic := (mic w)\<lparr>frames := []\<rparr>\<rparr>)
   \<and> handleNewData (w\<lparr>mic := (mic w)\<lparr>frames := fs @ [c]\<rparr>\<rparr>)
       = handleNewData (w\<lparr>mic := (mic w)\<lparr>frames := [c]\<rparr>\<rparr>)
   \<and> handleNewData (w\<lparr>mic := (mic w)\<lparr>frames := fs @ [c]\<rparr>\<rparr>)
       = (case rfft c of
            Inl e \<Rightarrow> Inl e
          | Inr X \<Rightarrow>
             (case tick_gain w (assign_zero_upto (cutoffSlider w) X) of
                Inl e \<Rightarrow> Inl e
              | Inr (gain, s) \<Rightarrow>
                  Inr (w\<lparr>mic := (mic w)\<lparr>frames := []\<rparr>,
                          line_top := (time_vect w, c),
                          fixedGainSlider := s,
                          line_bottom := (freq_vect w,
                             map (\<lambda>z. np_abs (np_scale gain z)) (assign_zero_upto (cutoffSlider w) X)),
                          draws := draws w + 1\<rparr>)))
   \<and> handleNewData (w\<lparr>autoGainCheckBox := False, mic := (mic w)\<lparr>frames := fs @ [x # xs]\<rparr>\<rparr>)
       = Inr (w\<lparr>autoGainCheckBox := False,
                 mic := (mic w)\<lparr>frames := []\<rparr>,
                 line_top := (time_vect w, x # xs),
                 line_bottom := (freq_vect w,
                    map (\<lambda>z. Fin (power_ratio (fixedGainSlider w) * cmod z))
                      (assign_zero_upto (cutoffSlider w)
                         (map (dft_bin (x # xs)) [0..<length (x # xs) div 2 + 1]))),
                 draws := draws w + 1\<rparr>)"
proof -
  have a: "tick_gain (w\<lparr>mic := m\<rparr>) X = tick_gain w X" for m X
    by (rule tick_gain_cong) simp_all
  have 1: "handleNewData (w\<lparr>mic := (mic w)\<lparr>frames := []\<rparr>\<rparr>) = Inr (w\<lparr>mic := (mic w)\<lparr>frames := []\<rparr>\<rparr>)"
    by (simp add: handleNewData_empty)
  have 2: "handleNewData (w\<lparr>mic := (mic w)\<lparr>frames := fs @ [c]\<rparr>\<rparr>)
       = handleNewData (w\<lparr>mic := (mic w)\<lparr>frames := [c]\<rparr>\<rparr>)"
    by (simp add: handleNewData_nonempty a split: sum.splits prod.splits)
  have 3: "handleNewData (w\<lparr>mic := (mic w)\<lparr>frames := fs @ [c]\<rparr>\<rparr>)
       = (case rfft c of
            Inl e \<Rightarrow> Inl e
          | Inr X \<Rightarrow>
             (case tick_gain w (assign_zero_upto (cutoffSlider w) X) of
                Inl e \<Rightarrow> Inl e
              | Inr (gain, s) \<Rightarrow>
                  Inr (w\<lparr>mic := (mic w)\<lparr>frames := []\<rparr>,
                          line_top := (time_vect w, c),
                          fixedGainSlider := s,
                          line_bottom := (freq_vect w,
                             map (\<lambda>z. np_abs (np_scale gain z)) (assign_zero_upto (cutoffSlider w) X)),
                          draws := draws w + 1\<rparr>)))"
    by (simp add: handleNewData_nonempty a split: sum.splits prod.splits)
  have g: "\<bar>power_ratio (fixedGainSlider w)\<bar> = power_ratio (fixedGainSlider w)"
    using power_ratio_pos[of "fixedGainSlider w"] by simp
  have b: "tick_gain (w\<lparr>autoGainCheckBox := False, mic := m\<rparr>) X
     = Inr (Fin (power_ratio (fixedGainSlider w)), fixedGainSlider w)" for m X
    by (simp add: tick_gain_def)
  have 4: "handleNewData (w\<lparr>autoGainCheckBox := False, mic := (mic w)\<lparr>frames := fs @ [x # xs]\<rparr>\<rparr>)
       = Inr (w\<lparr>autoGainCheckBox := False,
                 mic := (mic w)\<lparr>frames := []\<rparr>,
                 line_top := (time_vect w, x # xs),
                 line_bottom := (freq_vect w,
                    map (\<lambda>z. Fin (power_ratio (fixedGainSlider w) * cmod z))
                      (assign_zero_upto (cutoffSlider w)
                         (map (dft_bin (x # xs)) [0..<length (x # xs) div 2 + 1]))),
                 draws := draws w + 1\<rparr>)"
    by (simp add: handleNewData_nonempty rfft_def b np_abs_np_scale_Fin g del: upt_Suc)
  show ?thesis
    using 1 2 3 4 by (intro conjI)
qed

subsection \<open>Auto-gain\<close>

lemma tick_gain_auto:
  assumes "autoGainCheckBox w" and "amax (map cmod X) = Inr M" and "0 < M"
  shows "tick_gain w X =
          (case set_power_ratio (fixedGainSlider w) (Fin (sample_style_2 / M)) of
             Inl e \<Rightarrow> Inl e | Inr s \<Rightarrow> Inr (Fin (sample_style_2 / M), s))"
  using assms by (simp add: tick_gain_def np_truediv_def Let_def)

lemma tick_gain_auto_zero:
  assumes "autoGainCheckBox w" and "amax (map cmod X) = Inr 0"
  shows "tick_gain w X =
          (case set_power_ratio (fixedGainSlider w) PInf of
             Inl e \<Rightarrow> Inl e | Inr s \<Rightarrow> Inr (PInf, s))"
  using assms by (simp add: tick_gain_def np_truediv_def inf_signed_def sample_style_2_def Let_def)

lemma slider_value_update_inject:
  "Inr (s\<lparr>slider_value := a\<rparr>) = (Inr (s\<lparr>slider_value := b\<rparr>) :: py_error + DecibelSlider) \<Longrightarrow> a = b"
proof -
  assume "Inr (s\<lparr>slider_value := a\<rparr>) = (Inr (s\<lparr>slider_value := b\<rparr>) :: py_error + DecibelSlider)"
  then have "slider_value (s\<lparr>slider_value := a\<rparr>) = slider_value (s\<lparr>slider_value := b\<rparr>)"
    by simp
  then show "a = b" by simp
qed

lemma set_decibel_tracks_clamped:
  assumes lh: "low_db s < high_db s"
  shows "set_decibel s (Fin d)
           = Inr (s\<lparr>slider_value :=
                    round_half_even (min 1000000 (max 0 ((d - low_db s) * 1000000 / (high_db s - low_db s))))\<rparr>)
         \<and> \<bar>int_to_db s (round_half_even (min 1000000 (max 0 ((d - low_db s) * 1000000 / (high_db s - low_db s)))))
              - min (high_db s) (max (low_db s) d)\<bar>
             \<le> (high_db s - low_db s) / 2000000"
proof -
  have ne: "high_db s \<noteq> low_db s" using lh by simp
  let ?v = "round_half_even (min 1000000 (max 0 ((d - low_db s) * 1000000 / (high_db s - low_db s))))"
  have eq: "set_decibel s (Fin d) = Inr (s\<lparr>slider_value := ?v\<rparr>)"
    by (rule set_decibel_Fin[OF ne])
  have w: "0 \<le> (high_db s - low_db s) / 2000000" using lh by simp
  consider (below) "d \<le> low_db s" | (inside) "low_db s \<le> d" "d \<le> high_db s" | (above) "high_db s \<le> d"
    by linarith
  then have "\<bar>int_to_db s ?v - min (high_db s) (max (low_db s) d)\<bar> \<le> (high_db s - low_db s) / 2000000"
  proof cases
    case below
    have "?v = INT_MIN"
      by (rule slider_value_update_inject[where s=s]) (simp only: eq[symmetric] set_decibel_below[OF lh below])
    moreover have "min (high_db s) (max (low_db s) d) = low_db s" using below lh by simp
    ultimately show ?thesis using w by (simp only: int_to_db_INT_MIN)
  next
    case inside
    have v: "?v = round_half_even ((d - low_db s) * 1000000 / (high_db s - low_db s))"
      by (rule slider_value_update_inject[where s=s])
         (simp only: eq[symmetric] decibel_roundtrip_aux(1)[OF lh inside])
    have "min (high_db s) (max (low_db s) d) = d" using inside by simp
    then show ?thesis using decibel_roundtrip_aux(2)[OF lh inside] by (simp only: v)
  next
    case above
    have "?v = INT_MAX"
      by (rule slider_value_update_inject[where s=s]) (simp only: eq[symmetric] set_decibel_above[OF lh above])
    moreover have "min (high_db s) (max (low_db s) d) = high_db s" using above lh by simp
    ultimately show ?thesis using w by (simp only: int_to_db_INT_MAX)
  qed
  with eq show ?thesis by (intro conjI)
qed

lemma log10_thousandth: "log 10 (1 / 1000) = - 3"
proof -
  have "log 10 (10 ^ 3) = 3" using log_pow_cancel[of 10 3] by simp
  then have "log 10 1000 = 3" by simp
  then show ?thesis by (simp add: log_divide)
qed

lemma log10_ten_thousandth: "log 10 (1 / 10000) = - 4"
proof -
  have "log 10 (10 ^ 4) = 4" using log_pow_cancel[of 10 4] by simp
  then have "log 10 10000 = 4" by simp
  then show ?thesis by (simp add: log_divide)
qed

text \<open>
  Claim C1, as the code has it. On an auto-gain tick whose cutoff-filtered spectrum
  has a maximum magnitude \<open>M > 0\<close>, on a slider with \<open>low_db < high_db\<close>, the gain is
  \<open>ceiling / M\<close> with the ceiling \<^verbatim>\<open>sample_style[2]\<close> (1.0); the displayed
  magnitudes are the filtered magnitudes times that gain, so their maximum is the
  ceiling. The same gain is passed to \<^verbatim>\<open>set_power_ratio\<close>, which stores the
  rounded, clamped position of \<open>10 * log 10 gain\<close>: the readout \<^verbatim>\<open>decibel()\<close>
  after the tick is within one position quantum of \<open>10 * log 10 gain\<close> clamped to
  \<open>[low_db, high_db]\<close>. It follows the gain inside the range of the slider and
  stands at the nearer bound outside.
\<close>

theorem auto_gain_ceiling_and_readout:
  assumes auto: "autoGainCheckBox w"
    and fs: "frames (mic w) \<noteq> []"
    and X: "rfft (last (frames (mic w))) = Inr X"
    and M: "amax (map cmod (assign_zero_upto (cutoffSlider w) X)) = Inr M"
    and pos: "0 < M"
    and lh: "low_db (fixedGainSlider w) < high_db (fixedGainSlider w)"
  shows "\<exists>w'.
           handleNewData w = Inr w'
         \<and> tick_gain w (assign_zero_upto (cutoffSlider w) X)
             = Inr (Fin (sample_style_2 / M), fixedGainSlider w')
         \<and> set_power_ratio (fixedGainSlider w) (Fin (sample_style_2 / M)) = Inr (fixedGainSlider w')
         \<and> snd (line_bottom w')
             = map (\<lambda>z. Fin (sample_style_2 / M * cmod z)) (assign_zero_upto (cutoffSlider w) X)
         \<and> amax (map (\<lambda>z. sample_style_2 / M * cmod z) (assign_zero_upto (cutoffSlider w) X))
             = Inr sample_style_2
         \<and> fixedGainSlider w'
             = (fixedGainSlider w)\<lparr>slider_value :=
                  round_half_even
                    (min 1000000
                      (max 0 ((10 * log 10 (sample_style_2 / M) - low_db (fixedGainSlider w)) * 1000000
                              / (high_db (fixedGainSlider w) - low_db (fixedGainSlider w)))))\<rparr>
         \<and> \<bar>decibel (fixedGainSlider w')
              - min (high_db (fixedGainSlider w))
                    (max (low_db (fixedGainSlider w)) (10 * log 10 (sample_style_2 / M)))\<bar>
             \<le> (high_db (fixedGainSlider w) - low_db (fixedGainSlider w)) / of_int INT_MAX"
proof -
  let ?C = "assign_zero_upto (cutoffSlider w) X"
  let ?g = "sample_style_2 / M"
  let ?sl = "fixedGainSlider w"
  let ?v = "round_half_even
              (min 1000000 (max 0 ((10 * log 10 ?g - low_db ?sl) * 1000000 / (high_db ?sl - low_db ?sl))))"
  let ?s = "?sl\<lparr>slider_value := ?v\<rparr>"
  have g: "0 < ?g" using pos by (simp add: sample_style_2_def)
  note tr = set_decibel_tracks_clamped[OF lh, of "10 * log 10 ?g"]
  have sd: "set_decibel ?sl (Fin (10 * log 10 ?g)) = Inr ?s"
    using tr by (rule conjunct1)
  have sp: "set_power_ratio ?sl (Fin ?g) = Inr ?s"
    by (simp only: set_power_ratio_Fin[OF g] sd)
  have tg: "tick_gain w ?C = Inr (Fin ?g, ?s)"
    by (simp add: tick_gain_auto[OF auto M pos] sp)
  have mags: "map (\<lambda>z. np_abs (np_scale (Fin ?g) z)) ?C = map (\<lambda>z. Fin (?g * cmod z)) ?C"
    by (simp only: np_abs_np_scale_Fin abs_of_pos[OF g])
  have "amax (map (\<lambda>x. ?g * x) (map cmod ?C)) = Inr (?g * M)"
    using M g by (intro amax_scale) simp_all
  then have mx: "amax (map (\<lambda>z. ?g * cmod z) ?C) = Inr sample_style_2"
    using pos by (simp add: comp_def)
  have "\<bar>int_to_db ?sl ?v - min (high_db ?sl) (max (low_db ?sl) (10 * log 10 ?g))\<bar>
          \<le> (high_db ?sl - low_db ?sl) / 2000000"
    using tr by (rule conjunct2)
  also have "\<dots> \<le> (high_db ?sl - low_db ?sl) / 1000000" using lh by simp
  finally have rd: "\<bar>decibel ?s - min (high_db ?sl) (max (low_db ?sl) (10 * log 10 ?g))\<bar>
          \<le> (high_db ?sl - low_db ?sl) / of_int INT_MAX"
    by (simp add: decibel_update INT_MAX_def)
  let ?w' = "w\<lparr>mic := (mic w)\<lparr>frames := []\<rparr>,
                line_top := (time_vect w, last (frames (mic w))),
                fixedGainSlider := ?s,
                line_bottom := (freq_vect w, map (\<lambda>z. np_abs (np_scale (Fin ?g) z)) ?C),
                draws := draws w + 1\<rparr>"
  have h: "handleNewData w = Inr ?w'"
    by (simp add: handleNewData_nonempty[OF fs] X tg)
  have fg: "fixedGainSlider ?w' = ?s" by simp
  have lb: "snd (line_bottom ?w') = map (\<lambda>z. Fin (?g * cmod z)) ?C"
    using mags by simp
  show ?thesis
    apply (rule exI[of _ ?w'])
    apply (simp only: fg lb)
    using h tg sp mx rd by (intro conjI) simp_all
qed

theorem auto_gain_ceiling_and_readout_witness:
  "autoGainCheckBox
        \<lparr>mic = \<lparr>rate = 48000, chunksize = 2, stop = False, frames = [[1, 0]], t = Alive\<rparr>,
         autoGainCheckBox = True,
         fixedGainSlider = \<lparr>low_db = - 24, high_db = 24, slider_value = 0\<rparr>,
         cutoffSlider = 1, freq_vect = [0, 24000], time_vect = [0, 1 / 48],
         line_top = ([0, 1 / 48], [1, 1]), line_bottom = ([0, 24000], [Fin 1, Fin 1]), draws = 0\<rparr>
   \<and> frames (mic \<lparr>mic = \<lparr>rate = 48000, chunksize = 2, stop = False, frames = [[1, 0]], t = Alive\<rparr>,
         autoGainCheckBox = True,
         fixedGainSlider = \<lparr>low_db = - 24, high_db = 24, slider_value = 0\<rparr>,
         cutoffSlider = 1, freq_vect = [0, 24000], time_vect = [0, 1 / 48],
         line_top = ([0, 1 / 48], [1, 1]), line_bottom = ([0, 24000], [Fin 1, Fin 1]), draws = 0\<rparr>) \<noteq> []
   \<and> rfft (last (frames (mic \<lparr>mic = \<lparr>rate = 48000, chunksize = 2, stop = False, frames = [[1, 0]], t = Alive\<rparr>,
         autoGainCheckBox = True,
         fixedGainSlider = \<lparr>low_db = - 24, high_db = 24, slider_value = 0\<rparr>,
         cutoffSlider = 1, freq_vect = [0, 24000], time_vect = [0, 1 / 48],
         line_top = ([0, 1 / 48], [1, 1]), line_bottom = ([0, 24000], [Fin 1, Fin 1]), draws = 0\<rparr>))) = Inr [1, 1]
   \<and> amax (map cmod (assign_zero_upto (cutoffSlider \<lparr>mic = \<lparr>rate = 48000, chunksize = 2, stop = False, frames = [[1, 0]], t = Alive\<rparr>,
         autoGainCheckBox = True,
         fixedGainSlider = \<lparr>low_db = - 24, high_db = 24, slider_value = 0\<rparr>,
         cutoffSlider = 1, freq_vect = [0, 24000], time_vect = [0, 1 / 48],
         line_top = ([0, 1 / 48], [1, 1]), line_bottom = ([0, 24000], [Fin 1, Fin 1]), draws = 0\<rparr>) [1, 1])) = Inr 1
   \<and> (0::real) < 1
   \<and> low_db (fixedGainSlider \<lparr>mic = \<lparr>rate = 48000, chunksize = 2, stop = False, frames = [[1, 0]], t = Alive\<rparr>,
         autoGainCheckBox = True,
         fixedGainSlider = \<lparr>low_db = - 24, high_db = 24, slider_value = 0\<rparr>,
         cutoffSlider = 1, freq_vect = [0, 24000], time_vect = [0, 1 / 48],
         line_top = ([0, 1 / 48], [1, 1]), line_bottom = ([0, 24000], [Fin 1, Fin 1]), draws = 0\<rparr>) < high_db (fixedGainSlider \<lparr>mic = \<lparr>rate = 48000, chunksize = 2, stop = False, frames = [[1, 0]], t = Alive\<rparr>,
         autoGainCheckBox = True,
         fixedGainSlider = \<lparr>low_db = - 24, high_db = 24, slider_value = 0\<rparr>,
         cutoffSlider = 1, freq_vect = [0, 24000], time_vect = [0, 1 / 48],
         line_top = ([0, 1 / 48], [1, 1]), line_bottom = ([0, 24000], [Fin 1, Fin 1]), draws = 0\<rparr>)
   \<and> tick_slider_value \<lparr>mic = \<lparr>rate = 48000, chunksize = 2, stop = False, frames = [[1, 0]], t = Alive\<rparr>,
         autoGainCheckBox = True,
         fixedGainSlider = \<lparr>low_db = - 24, high_db = 24, slider_value = 0\<rparr>,
         cutoffSlider = 1, freq_vect = [0, 24000], time_vect = [0, 1 / 48],
         line_top = ([0, 1 / 48], [1, 1]), line_bottom = ([0, 24000], [Fin 1, Fin 1]), draws = 0\<rparr> = Inr 500000
   \<and> tick_magnitudes \<lparr>mic = \<lparr>rate = 48000, chunksize = 2, stop = False, frames = [[1, 0]], t = Alive\<rparr>,
         autoGainCheckBox = True,
         fixedGainSlider = \<lparr>low_db = - 24, high_db = 24, slider_value = 0\<rparr>,
         cutoffSlider = 1, freq_vect = [0, 24000], time_vect = [0, 1 / 48],
         line_top = ([0, 1 / 48], [1, 1]), line_bottom = ([0, 24000], [Fin 1, Fin 1]), draws = 0\<rparr> = Inr [Fin 0, Fin 1]
   \<and> decibel \<lparr>low_db = - 24, high_db = 24, slider_value = 500000\<rparr> = 0"
  using auto_gain_ceiling_and_readout
    [of "\<lparr>mic = \<lparr>rate = 48000, chunksize = 2, stop = False, frames = [[1, 0]], t = Alive\<rparr>,
         autoGainCheckBox = True,
         fixedGainSlider = \<lparr>low_db = - 24, high_db = 24, slider_value = 0\<rparr>,
         cutoffSlider = 1, freq_vect = [0, 24000], time_vect = [0, 1 / 48],
         line_top = ([0, 1 / 48], [1, 1]), line_bottom = ([0, 24000], [Fin 1, Fin 1]), draws = 0\<rparr>" "[1, 1]" 1]
  by (simp add: handleNewData_def get_frames_def rfft_def dft_bin_def assign_zero_upto_def
      slice_stop_def tick_gain_def np_truediv_def inf_signed_def sample_style_2_def
      set_power_ratio_def set_decibel_def set_decibel_position_def db_to_int_def py_truediv_def
      fsub_def py_min_def py_max_def round_half_even_def setValue_def
      INT_MAX_def INT_MIN_def np_scale_def tick_slider_value_def tick_magnitudes_def decibel_def int_to_db_def)

text \<open>
  Two loud chunks on a slider with bounds \<open>-24\<close> and \<open>24\<close> dB: the gains \<open>1/1000\<close> (\<open>-30\<close> dB)
  and \<open>1/10000\<close> (\<open>-40\<close> dB) both leave the slider on position 0, which reads
  \<open>-24\<close> dB.
\<close>

theorem auto_gain_readout_counterexample:
  "rfft [1000, 0] = Inr [1000, 1000]
   \<and> tick_gain \<lparr>mic = \<lparr>rate = 48000, chunksize = 2, stop = False, frames = [[1000, 0]], t = Alive\<rparr>,
         autoGainCheckBox = True,
         fixedGainSlider = \<lparr>low_db = - 24, high_db = 24, slider_value = 500000\<rparr>,
         cutoffSlider = 1, freq_vect = [0, 24000], time_vect = [0, 1 / 48],
         line_top = ([0, 1 / 48], [1, 1]), line_bottom = ([0, 24000], [Fin 1, Fin 1]), draws = 0\<rparr> (assign_zero_upto 1 [1000, 1000])
       = Inr (Fin (1 / 1000), \<lparr>low_db = - 24, high_db = 24, slider_value = 0\<rparr>)
   \<and> tick_slider_value \<lparr>mic = \<lparr>rate = 48000, chunksize = 2, stop = False, frames = [[1000, 0]], t = Alive\<rparr>,
         autoGainCheckBox = True,
         fixedGainSlider = \<lparr>low_db = - 24, high_db = 24, slider_value = 500000\<rparr>,
         cutoffSlider = 1, freq_vect = [0, 24000], time_vect = [0, 1 / 48],
         line_top = ([0, 1 / 48], [1, 1]), line_bottom = ([0, 24000], [Fin 1, Fin 1]), draws = 0\<rparr> = Inr 0
   \<and> rfft [10000, 0] = Inr [10000, 10000]
   \<and> tick_gain \<lparr>mic = \<lparr>rate = 48000, chunksize = 2, stop = False, frames = [[10000, 0]], t = Alive\<rparr>,
         autoGainCheckBox = True,
         fixedGainSlider = \<lparr>low_db = - 24, high_db = 24, slider_value = 500000\<rparr>,
         cutoffSlider = 1, freq_vect = [0, 24000], time_vect = [0, 1 / 48],
         line_top = ([0, 1 / 48], [1, 1]), line_bottom = ([0, 24000], [Fin 1, Fin 1]), draws = 0\<rparr> (assign_zero_upto 1 [10000, 10000])
       = Inr (Fin (1 / 10000), \<lparr>low_db = - 24, high_db = 24, slider_value = 0\<rparr>)
   \<and> tick_slider_value \<lparr>mic = \<lparr>rate = 48000, chunksize = 2, stop = False, frames = [[10000, 0]], t = Alive\<rparr>,
         autoGainCheckBox = True,
         fixedGainSlider = \<lparr>low_db = - 24, high_db = 24, slider_value = 500000\<rparr>,
         cutoffSlider = 1, freq_vect = [0, 24000], time_vect = [0, 1 / 48],
         line_top = ([0, 1 / 48], [1, 1]), line_bottom = ([0, 24000], [Fin 1, Fin 1]), draws = 0\<rparr> = Inr 0
   \<and> decibel \<lparr>low_db = - 24, high_db = 24, slider_value = 0\<rparr> = - 24
   \<and> 10 * log 10 (1 / 1000) = - 30
   \<and> 10 * log 10 (1 / 10000) = - 40"
  by (simp add: handleNewData_def get_frames_def rfft_def dft_bin_def assign_zero_upto_def
      slice_stop_def tick_gain_def np_truediv_def inf_signed_def sample_style_2_def
      set_power_ratio_def set_decibel_def set_decibel_position_def db_to_int_def py_truediv_def
      fsub_def py_min_def py_max_def round_half_even_def setValue_def
      INT_MAX_def INT_MIN_def np_scale_def tick_slider_value_def tick_magnitudes_def decibel_def int_to_db_def log10_thousandth log10_ten_thousandth)

text \<open>
  Claim C2, as the code has it. On an auto-gain tick whose cutoff-filtered spectrum
  is entirely zero, on a slider with \<open>low_db < high_db\<close>, the tick returns without
  an exception. The slider update is not skipped: \<^verbatim>\<open>set_power_ratio\<close> is called
  with the gain of the tick, and the clamp of \<^verbatim>\<open>set_decibel\<close> puts the slider on
  \<open>INT_MAX\<close>, which reads back as \<open>high_db\<close>. The position stays within
  \<open>[INT_MIN, INT_MAX]\<close>; the previous position is not retained.
\<close>

theorem silent_tick_clamps_slider:
  assumes auto: "autoGainCheckBox w"
    and fs: "frames (mic w) \<noteq> []"
    and X: "rfft (last (frames (mic w))) = Inr X"
    and M: "amax (map cmod (assign_zero_upto (cutoffSlider w) X)) = Inr 0"
    and lh: "low_db (fixedGainSlider w) < high_db (fixedGainSlider w)"
  shows "\<exists>w'. handleNewData w = Inr w'
           \<and> fixedGainSlider w' = (fixedGainSlider w)\<lparr>slider_value := INT_MAX\<rparr>
           \<and> INT_MIN \<le> slider_value (fixedGainSlider w')
           \<and> slider_value (fixedGainSlider w') \<le> INT_MAX
           \<and> decibel (fixedGainSlider w') = high_db (fixedGainSlider w)"
proof -
  let ?C = "assign_zero_upto (cutoffSlider w) X"
  let ?s = "(fixedGainSlider w)\<lparr>slider_value := INT_MAX\<rparr>"
  have tg: "tick_gain w ?C = Inr (PInf, ?s)"
    by (simp add: tick_gain_auto_zero[OF auto M] set_power_ratio_PInf set_decibel_PInf[OF lh])
  have h: "handleNewData w =
        Inr (w\<lparr>mic := (mic w)\<lparr>frames := []\<rparr>,
                line_top := (time_vect w, last (frames (mic w))),
                fixedGainSlider := ?s,
                line_bottom := (freq_vect w, map (\<lambda>z. np_abs (np_scale PInf z)) ?C),
                draws := draws w + 1\<rparr>)"
    by (simp add: handleNewData_nonempty[OF fs] X tg)
  have rg: "INT_MIN \<le> INT_MAX"
    by (simp add: INT_MIN_def INT_MAX_def)
  show ?thesis
    using h rg by (simp add: decibel_update int_to_db_INT_MAX)
qed

theorem silent_tick_clamps_slider_witness:
  "autoGainCheckBox
        \<lparr>mic = \<lparr>rate = 48000, chunksize = 2, stop = False, frames = [[0, 0]], t = Alive\<rparr>,
         autoGainCheckBox = True,
         fixedGainSlider = \<lparr>low_db = - 24, high_db = 24, slider_value = 500000\<rparr>,
         cutoffSlider = 1, freq_vect = [0, 24000], time_vect = [0, 1 / 48],
         line_top = ([0, 1 / 48], [1, 1]), line_bottom = ([0, 24000], [Fin 1, Fin 1]), draws = 0\<rparr>
   \<and> frames (mic \<lparr>mic = \<lparr>rate = 48000, chunksize = 2, stop = False, frames = [[0, 0]], t = Alive\<rparr>,
         autoGainCheckBox = True,
         fixedGainSlider = \<lparr>low_db = - 24, high_db = 24, slider_value = 500000\<rparr>,
         cutoffSlider = 1, freq_vect = [0, 24000], time_vect = [0, 1 / 48],
         line_top = ([0, 1 / 48], [1, 1]), line_bottom = ([0, 24000], [Fin 1, Fin 1]), draws = 0\<rparr>) \<noteq> []
   \<and> rfft (last (frames (mic \<lparr>mic = \<lparr>rate = 48000, chunksize = 2, stop = False, frames = [[0, 0]], t = Alive\<rparr>,
         autoGainCheckBox = True,
         fixedGainSlider = \<lparr>low_db = - 24, high_db = 24, slider_value = 500000\<rparr>,
         cutoffSlider = 1, freq_vect = [0, 24000], time_vect = [0, 1 / 48],
         line_top = ([0, 1 / 48], [1, 1]), line_bottom = ([0, 24000], [Fin 1, Fin 1]), draws = 0\<rparr>))) = Inr [0, 0]
   \<and> amax (map cmod (assign_zero_upto (cutoffSlider \<lparr>mic = \<lparr>rate = 48000, chunksize = 2, stop = False, frames = [[0, 0]], t = Alive\<rparr>,
         autoGainCheckBox = True,
         fixedGainSlider = \<lparr>low_db = - 24, high_db = 24, slider_value = 500000\<rparr>,
         cutoffSlider = 1, freq_vect = [0, 24000], time_vect = [0, 1 / 48],
         line_top = ([0, 1 / 48], [1, 1]), line_bottom = ([0, 24000], [Fin 1, Fin 1]), draws = 0\<rparr>) [0, 0])) = Inr 0
   \<and> low_db (fixedGainSlider \<lparr>mic = \<lparr>rate = 48000, chunksize = 2, stop = False, frames = [[0, 0]], t = Alive\<rparr>,
         autoGainCheckBox = True,
         fixedGainSlider = \<lparr>low_db = - 24, high_db = 24, slider_value = 500000\<rparr>,
         cutoffSlider = 1, freq_vect = [0, 24000], time_vect = [0, 1 / 48],
         line_top = ([0, 1 / 48], [1, 1]), line_bottom = ([0, 24000], [Fin 1, Fin 1]), draws = 0\<rparr>) < high_db (fixedGainSlider \<lparr>mic = \<lparr>rate = 48000, chunksize = 2, stop = False, frames = [[0, 0]], t = Alive\<rparr>,
         autoGainCheckBox = True,
         fixedGainSlider = \<lparr>low_db = - 24, high_db = 24, slider_value = 500000\<rparr>,
         cutoffSlider = 1, freq_vect = [0, 24000], time_vect = [0, 1 / 48],
         line_top = ([0, 1 / 48], [1, 1]), line_bottom = ([0, 24000], [Fin 1, Fin 1]), draws = 0\<rparr>)
   \<and> tick_slider_value \<lparr>mic = \<lparr>rate = 48000, chunksize = 2, stop = False, frames = [[0, 0]], t = Alive\<rparr>,
         autoGainCheckBox = True,
         fixedGainSlider = \<lparr>low_db = - 24, high_db = 24, slider_value = 500000\<rparr>,
         cutoffSlider = 1, freq_vect = [0, 24000], time_vect = [0, 1 / 48],
         line_top = ([0, 1 / 48], [1, 1]), line_bottom = ([0, 24000], [Fin 1, Fin 1]), draws = 0\<rparr> = Inr INT_MAX"
  using silent_tick_clamps_slider
    [of "\<lparr>mic = \<lparr>rate = 48000, chunksize = 2, stop = False, frames = [[0, 0]], t = Alive\<rparr>,
         autoGainCheckBox = True,
         fixedGainSlider = \<lparr>low_db = - 24, high_db = 24, slider_value = 500000\<rparr>,
         cutoffSlider = 1, freq_vect = [0, 24000], time_vect = [0, 1 / 48],
         line_top = ([0, 1 / 48], [1, 1]), line_bottom = ([0, 24000], [Fin 1, Fin 1]), draws = 0\<rparr>" "[0, 0]"]
  by (simp add: handleNewData_def get_frames_def rfft_def dft_bin_def assign_zero_upto_def
      slice_stop_def tick_gain_def np_truediv_def inf_signed_def sample_style_2_def
      set_power_ratio_def set_decibel_def set_decibel_position_def db_to_int_def py_truediv_def
      fsub_def py_min_def py_max_def round_half_even_def setValue_def
      INT_MAX_def INT_MIN_def np_scale_def tick_slider_value_def tick_magnitudes_def)

text \<open>
  A silent chunk on a slider standing at 0 dB (position 500000): the gain of the tick
  is infinite, the slider ends on position 1000000 and the displayed magnitudes are
  NaN.
\<close>

theorem silent_tick_counterexample:
  "rfft [0, 0] = Inr [0, 0]
   \<and> slider_value (fixedGainSlider \<lparr>mic = \<lparr>rate = 48000, chunksize = 2, stop = False, frames = [[0, 0]], t = Alive\<rparr>,
         autoGainCheckBox = True,
         fixedGainSlider = \<lparr>low_db = - 24, high_db = 24, slider_value = 500000\<rparr>,
         cutoffSlider = 1, freq_vect = [0, 24000], time_vect = [0, 1 / 48],
         line_top = ([0, 1 / 48], [1, 1]), line_bottom = ([0, 24000], [Fin 1, Fin 1]), draws = 0\<rparr>) = 500000
   \<and> tick_gain \<lparr>mic = \<lparr>rate = 48000, chunksize = 2, stop = False, frames = [[0, 0]], t = Alive\<rparr>,
         autoGainCheckBox = True,
         fixedGainSlider = \<lparr>low_db = - 24, high_db = 24, slider_value = 500000\<rparr>,
         cutoffSlider = 1, freq_vect = [0, 24000], time_vect = [0, 1 / 48],
         line_top = ([0, 1 / 48], [1, 1]), line_bottom = ([0, 24000], [Fin 1, Fin 1]), draws = 0\<rparr> (assign_zero_upto 1 [0, 0])
       = Inr (PInf, \<lparr>low_db = - 24, high_db = 24, slider_value = 1000000\<rparr>)
   \<and> tick_slider_value \<lparr>mic = \<lparr>rate = 48000, chunksize = 2, stop = False, frames = [[0, 0]], t = Alive\<rparr>,
         autoGainCheckBox = True,
         fixedGainSlider = \<lparr>low_db = - 24, high_db = 24, slider_value = 500000\<rparr>,
         cutoffSlider = 1, freq_vect = [0, 24000], time_vect = [0, 1 / 48],
         line_top = ([0, 1 / 48], [1, 1]), line_bottom = ([0, 24000], [Fin 1, Fin 1]), draws = 0\<rparr> = Inr 1000000
   \<and> tick_magnitudes \<lparr>mic = \<lparr>rate = 48000, chunksize = 2, stop = False, frames = [[0, 0]], t = Alive\<rparr>,
         autoGainCheckBox = True,
         fixedGainSlider = \<lparr>low_db = - 24, high_db = 24, slider_value = 500000\<rparr>,
         cutoffSlider = 1, freq_vect = [0, 24000], time_vect = [0, 1 / 48],
         line_top = ([0, 1 / 48], [1, 1]), line_bottom = ([0, 24000], [Fin 1, Fin 1]), draws = 0\<rparr> = Inr [NaN, NaN]"
  by (simp add: handleNewData_def get_frames_def rfft_def dft_bin_def assign_zero_upto_def
      slice_stop_def tick_gain_def np_truediv_def inf_signed_def sample_style_2_def
      set_power_ratio_def set_decibel_def set_decibel_position_def db_to_int_def py_truediv_def
      fsub_def py_min_def py_max_def round_half_even_def setValue_def
      INT_MAX_def INT_MIN_def np_scale_def tick_slider_value_def tick_magnitudes_def)

end
